theory Spec2Isabelle
  imports Main "HOL-Library.Mapping"
begin

section \<open>Go values used by the middleware\<close>

text \<open>
  A Go slice is either \<open>nil\<close> or a (possibly empty) sequence. The difference matters
  in \<open>getHostAndMethods\<close>, which tests \<open>allowedOrigins[origin] != nil\<close>: a key that is
  present with a nil slice reads exactly like a key that is absent.
\<close>

datatype 'a slice = nil | Slice "'a list"

fun elems :: "'a slice \<Rightarrow> 'a list" where
  "elems nil = []"
| "elems (Slice xs) = xs"

text \<open>\<open>m[k]\<close> on a \<open>map[string][]string\<close>: the zero value \<open>nil\<close> for a missing key.\<close>

definition index :: "(string, 'a slice) mapping \<Rightarrow> string \<Rightarrow> 'a slice" where
  "index m k = (case Mapping.lookup m k of None \<Rightarrow> nil | Some v \<Rightarrow> v)"

text \<open>\<open>strings.Join(elems, sep)\<close>.\<close>

fun Join :: "string list \<Rightarrow> string \<Rightarrow> string" where
  "Join [] sep = []"
| "Join [x] sep = x"
| "Join (x # y # ys) sep = x @ sep @ Join (y # ys) sep"

text \<open>
  \<open>strings.Split(s, sep)\<close> for a one-character separator: the pieces between the
  separators, one more piece than there are separators, so the empty string splits into
  one empty piece.
\<close>

fun Split :: "string \<Rightarrow> char \<Rightarrow> string list" where
  "Split [] sep = [[]]"
| "Split (c # cs) sep =
     (if c = sep then [] # Split cs sep
      else (case Split cs sep of [] \<Rightarrow> [[c]] | p # ps \<Rightarrow> (c # p) # ps))"

text \<open>
  \<open>http.Header\<close> is a \<open>map[string][]string\<close>. \<open>Get\<close> returns the first value of a
  key, or the empty string. Keys are taken in canonical form, as the server stores them
  and as the constants of the package spell them.
\<close>

type_synonym http_Header = "(string, string list) mapping"

definition Header_Get :: "http_Header \<Rightarrow> string \<Rightarrow> string" where
  "Header_Get h key =
     (case Mapping.lookup h key of None \<Rightarrow> [] | Some [] \<Rightarrow> [] | Some (v # _) \<Rightarrow> v)"

record Request =
  Method :: string
  Header :: http_Header

definition StatusOK :: nat where
  "StatusOK = 200"

definition StatusForbidden :: nat where
  "StatusForbidden = 403"

section \<open>Effects of a handler\<close>

text \<open>
  The texts of \<open>errorRoot\<close>, \<open>errorBadOrigin\<close>, \<open>errorBadMethod\<close> and \<open>errorBadHeader\<close>
  are declared outside the files at hand; an argument of \<open>log.Println\<close> is either a
  string or one of these four names. Nothing below depends on their texts.
\<close>

datatype logarg = Text string | errorRoot | errorBadOrigin | errorBadMethod | errorBadHeader

text \<open>
  A handler only writes: it sets and adds response headers, writes a status code, logs,
  and hands the request to the next handler. Each of these calls is recorded, oldest
  first. What the next handler does with the response is not part of this development:
  the call \<open>next.ServeHTTP(w, r)\<close> is the event \<open>Call_next\<close>.
\<close>

datatype event =
    Call_Set string string
  | Call_Add string string
  | Call_WriteHeader nat
  | Call_Println "logarg list"
  | Call_next

record state =
  w_Header :: http_Header
  calls :: "event list"

definition Header_Set :: "string \<Rightarrow> string \<Rightarrow> state \<Rightarrow> state" where
  "Header_Set key v s =
     s\<lparr>w_Header := Mapping.update key [v] (w_Header s), calls := calls s @ [Call_Set key v]\<rparr>"

definition Header_Add :: "string \<Rightarrow> string \<Rightarrow> state \<Rightarrow> state" where
  "Header_Add key v s =
     s\<lparr>w_Header :=
         Mapping.update key
           ((case Mapping.lookup (w_Header s) key of None \<Rightarrow> [] | Some vs \<Rightarrow> vs) @ [v])
           (w_Header s),
       calls := calls s @ [Call_Add key v]\<rparr>"

definition WriteHeader :: "nat \<Rightarrow> state \<Rightarrow> state" where
  "WriteHeader code s = s\<lparr>calls := calls s @ [Call_WriteHeader code]\<rparr>"

definition Println :: "logarg list \<Rightarrow> state \<Rightarrow> state" where
  "Println args s = s\<lparr>calls := calls s @ [Call_Println args]\<rparr>"

definition next_ServeHTTP :: "state \<Rightarrow> state" where
  "next_ServeHTTP s = s\<lparr>calls := calls s @ [Call_next]\<rparr>"

text \<open>The calls a handler \<open>f\<close> makes when it runs from the state \<open>s\<close>.\<close>

definition issued :: "(state \<Rightarrow> state) \<Rightarrow> state \<Rightarrow> event list" where
  "issued f s = drop (length (calls s)) (calls (f s))"

section \<open>cors.go: the handler over origins and methods\<close>

text \<open>
  Modelled from the spec: the header-name constants \<open>Origin\<close>,
  \<open>AccessControlAllowOrigin\<close>, \<open>AccessControlAllowMethods\<close> and
  \<open>AccessControlRequestMethod\<close> are used by cors.go and declared elsewhere; their values
  are the header names the specification gives.
\<close>

definition Origin :: string where
  "Origin = ''Origin''"

definition AccessControlAllowOrigin :: string where
  "AccessControlAllowOrigin = ''Access-Control-Allow-Origin''"

definition AccessControlAllowMethods :: string where
  "AccessControlAllowMethods = ''Access-Control-Allow-Methods''"

definition AccessControlRequestMethod :: string where
  "AccessControlRequestMethod = ''Access-Control-Request-Method''"

record CorsMiddleware =
  AllowedOrigins :: "(string, string slice) mapping"

text \<open>The field \<open>next\<close> of the handler is the event \<open>Call_next\<close>.\<close>

record CorsHandler =
  cfg :: CorsMiddleware

datatype error = errors_New string

text \<open>
  \<open>len(origins) == 0\<close> is emptiness of the map; the loop over the keys returns the same
  error at the first empty key whatever the order of iteration, so it is a membership
  test.
\<close>

definition must_supply :: string where
  "must_supply = ''must supply at least one origin or '*'' @ [CHR 0x27]"

definition validateOrigins :: "(string, string slice) mapping \<Rightarrow> bool \<times> error option" where
  "validateOrigins origins =
     (if Mapping.is_empty origins then (False, Some (errors_New must_supply))
      else if [] \<in> Mapping.keys origins then (False, Some (errors_New must_supply))
      else (True, None))"

definition New :: "(string, string slice) mapping \<Rightarrow> error + CorsMiddleware" where
  "New allowedOrigins =
     (case validateOrigins allowedOrigins of
        (_, Some err) \<Rightarrow> Inl err
      | (_, None) \<Rightarrow> Inr \<lparr>AllowedOrigins = allowedOrigins\<rparr>)"

text \<open>\<open>NewHandler\<close> keeps the configuration; its error result is always nil.\<close>

definition NewHandler :: "CorsMiddleware \<Rightarrow> CorsHandler" where
  "NewHandler c = \<lparr>CorsHandler.cfg = c\<rparr>"

definition requestDenied :: "string \<Rightarrow> state \<Rightarrow> state" where
  "requestDenied message s = WriteHeader StatusForbidden (Println [Text message] s)"

definition getHostAndMethods ::
    "(string, string slice) mapping \<Rightarrow> string \<Rightarrow> bool \<times> string slice" where
  "getHostAndMethods allowedOrigins origin =
     (if index allowedOrigins origin \<noteq> nil then (True, index allowedOrigins origin)
      else if index allowedOrigins ''*'' \<noteq> nil then (True, index allowedOrigins ''*'')
      else (False, Slice []))"

fun checkMethod_range :: "string \<Rightarrow> string list \<Rightarrow> bool" where
  "checkMethod_range method [] = False"
| "checkMethod_range method (a # as) =
     (if a = method \<or> a = ''*'' then True else checkMethod_range method as)"

definition checkMethod :: "string \<Rightarrow> string slice \<Rightarrow> bool" where
  "checkMethod method methods = checkMethod_range method (elems methods)"

definition CorsHandler_ServeHTTP :: "CorsHandler \<Rightarrow> Request \<Rightarrow> state \<Rightarrow> state" where
  "CorsHandler_ServeHTTP a r s =
     (let origin = Header_Get (Header r) Origin;
          (hostIncluded, methods) = getHostAndMethods (AllowedOrigins (CorsHandler.cfg a)) origin
      in if \<not> hostIncluded then
           requestDenied ''Request Blocked by CORS: Bad Host''
             (Header_Set AccessControlAllowOrigin ''null'' s)
         else
           let s1 = Header_Set AccessControlAllowOrigin origin s in
           if Method r = ''OPTIONS'' then
             let s2 = Header_Set AccessControlAllowOrigin origin s1;
                 s3 = Header_Set AccessControlAllowMethods (Join (elems methods) '','') s2;
                 method = Header_Get (Header r) AccessControlRequestMethod;
                 methodOK = (if method \<noteq> [] then checkMethod method methods else True)
             in if \<not> methodOK then requestDenied ''Request Blocked by CORS: Bad Method'' s3
                else WriteHeader StatusOK s3
           else if \<not> checkMethod (Method r) methods then
             requestDenied ''Request Blocked by CORS: Bad Method'' s1
           else next_ServeHTTP s1)"

section \<open>handler.go: the handler that also checks the requested headers\<close>

text \<open>
  Modelled from the spec: the constants \<open>optionsMethod\<close>, \<open>originHeader\<close>,
  \<open>requestMethodHeader\<close>, \<open>requestHeadersHeader\<close>, \<open>varyHeader\<close>, \<open>allowOriginHeader\<close>,
  \<open>allowMethodsHeader\<close> and \<open>allowHeadersHeader\<close> are used by handler.go and declared
  elsewhere; their values are the method and header names the specification gives.
\<close>

definition optionsMethod :: string where
  "optionsMethod = ''OPTIONS''"

definition originHeader :: string where
  "originHeader = ''Origin''"

definition requestMethodHeader :: string where
  "requestMethodHeader = ''Access-Control-Request-Method''"

definition requestHeadersHeader :: string where
  "requestHeadersHeader = ''Access-Control-Request-Headers''"

definition varyHeader :: string where
  "varyHeader = ''Vary''"

definition allowOriginHeader :: string where
  "allowOriginHeader = ''Access-Control-Allow-Origin''"

definition allowMethodsHeader :: string where
  "allowMethodsHeader = ''Access-Control-Allow-Methods''"

definition allowHeadersHeader :: string where
  "allowHeadersHeader = ''Access-Control-Allow-Headers''"

text \<open>
  The type \<open>Middleware\<close> of the field \<open>cfg\<close> is declared outside the files at hand.
  The handler uses it through three query methods only, so it is taken as a parameter:
  any three functions of these types.
\<close>

record Middleware =
  isOriginAllowed :: "string \<Rightarrow> bool"
  isMethodAllowed :: "string \<Rightarrow> string \<Rightarrow> bool"
  areHeadersAllowed :: "string list \<Rightarrow> string \<Rightarrow> bool"

record Handler =
  cfg :: Middleware

definition Handler_requestDenied :: "logarg \<Rightarrow> state \<Rightarrow> state" where
  "Handler_requestDenied m s =
     WriteHeader StatusForbidden (Println [errorRoot, Text '': '', m] s)"

definition prepResponse :: "state \<Rightarrow> state" where
  "prepResponse s = Header_Add varyHeader originHeader s"

definition buildResponse :: "string \<Rightarrow> string \<Rightarrow> string list \<Rightarrow> state \<Rightarrow> state" where
  "buildResponse origin method headers s =
     (let s1 = Header_Set allowOriginHeader origin s;
          s2 = Header_Set allowMethodsHeader method s1
      in Header_Set allowHeadersHeader (Join headers '','') s2)"

definition handleCommon :: "Handler \<Rightarrow> Request \<Rightarrow> string \<Rightarrow> state \<Rightarrow> state" where
  "handleCommon h r method s =
     (let origin = Header_Get (Header r) originHeader in
      if \<not> isOriginAllowed (Handler.cfg h) origin then
        Handler_requestDenied errorBadOrigin s
      else if \<not> isMethodAllowed (Handler.cfg h) method origin then
        Handler_requestDenied errorBadMethod s
      else
        let headers = Split (Header_Get (Header r) requestHeadersHeader) CHR '','' in
        if \<not> areHeadersAllowed (Handler.cfg h) headers origin then
          Handler_requestDenied errorBadHeader s
        else buildResponse origin method headers s)"

definition handlePreflight :: "Handler \<Rightarrow> Request \<Rightarrow> state \<Rightarrow> state" where
  "handlePreflight h r s =
     (let method = Header_Get (Header r) requestMethodHeader;
          method = (if method = [] then Method r else method)
      in handleCommon h r method s)"

definition handleRequest :: "Handler \<Rightarrow> Request \<Rightarrow> state \<Rightarrow> state" where
  "handleRequest h r s = handleCommon h r (Method r) s"

definition Handler_ServeHTTP :: "Handler \<Rightarrow> Request \<Rightarrow> state \<Rightarrow> state" where
  "Handler_ServeHTTP h r s =
     (let s1 = prepResponse s;
          s2 = (if Method r = optionsMethod then handlePreflight h r s1
                else handleRequest h r s1)
      in next_ServeHTTP s2)"

subsection \<open>The policy store behind the handler\<close>

text \<open>
  Modelled from the spec: the policy of the header-checking variant and its three
  queries (\<open>isOriginAllowed\<close>, \<open>isMethodAllowed\<close>, \<open>areHeadersAllowed\<close> of
  \<open>Middleware\<close>) are not in the files at hand. The specification describes them: a
  mapping from origin to allowed methods and allowed headers, looked up by the exact
  origin first and by the wildcard origin otherwise.
\<close>

record OriginPolicy =
  methods :: "string list"
  headers :: "string list"

type_synonym Policy = "(string, OriginPolicy) mapping"

definition spec_isOriginAllowed :: "Policy \<Rightarrow> string \<Rightarrow> bool" where
  "spec_isOriginAllowed P origin \<longleftrightarrow> origin \<in> Mapping.keys P \<or> ''*'' \<in> Mapping.keys P"

definition spec_lookup :: "Policy \<Rightarrow> string \<Rightarrow> OriginPolicy" where
  "spec_lookup P origin =
     (case Mapping.lookup P origin of
        Some e \<Rightarrow> e
      | None \<Rightarrow>
          (case Mapping.lookup P ''*'' of
             Some e \<Rightarrow> e
           | None \<Rightarrow> \<lparr>methods = [], headers = []\<rparr>))"

definition spec_isMethodAllowed :: "Policy \<Rightarrow> string \<Rightarrow> string \<Rightarrow> bool" where
  "spec_isMethodAllowed P method origin \<longleftrightarrow>
     method \<in> set (methods (spec_lookup P origin)) \<or> ''*'' \<in> set (methods (spec_lookup P origin))"

definition spec_areHeadersAllowed :: "Policy \<Rightarrow> string list \<Rightarrow> string \<Rightarrow> bool" where
  "spec_areHeadersAllowed P hs origin \<longleftrightarrow>
     list_all (\<lambda>h. h \<in> set (headers (spec_lookup P origin))) hs
     \<or> ''*'' \<in> set (headers (spec_lookup P origin))"

definition PolicyStore :: "Policy \<Rightarrow> Middleware" where
  "PolicyStore P =
     \<lparr>isOriginAllowed = spec_isOriginAllowed P,
      isMethodAllowed = spec_isMethodAllowed P,
      areHeadersAllowed = spec_areHeadersAllowed P\<rparr>"

section \<open>Example policies and requests\<close>

text \<open>
  The concrete inputs at which the theorems below are instantiated: the policies and
  requests of the scenarios of the specification, and a response nothing was written to.
  The three stores put the policy store behind \<open>Handler\<close>; the general theorems about
  \<open>Handler\<close> hold for every \<open>Middleware\<close>.
\<close>

definition fresh :: state where
  "fresh = \<lparr>w_Header = Mapping.empty, calls = []\<rparr>"

definition request :: "string \<Rightarrow> (string \<times> string) list \<Rightarrow> Request" where
  "request m hs = \<lparr>Method = m, Header = Mapping.of_alist (map (\<lambda>(k, v). (k, [v])) hs)\<rparr>"

definition get_from_a :: Request where
  "get_from_a = request ''GET'' [(''Origin'', ''http://a.com'')]"

definition get_from_b :: Request where
  "get_from_b = request ''GET'' [(''Origin'', ''http://b.com'')]"

definition get_from_anything :: Request where
  "get_from_anything = request ''GET'' [(''Origin'', ''http://anything.com'')]"

definition get_from_star :: Request where
  "get_from_star = request ''GET'' [(''Origin'', ''*'')]"

definition preflight_from_a :: Request where
  "preflight_from_a = request ''OPTIONS'' [(''Origin'', ''http://a.com'')]"

definition preflight_get_from_a :: Request where
  "preflight_get_from_a =
     request ''OPTIONS''
       [(''Origin'', ''http://a.com''), (''Access-Control-Request-Method'', ''GET'')]"

definition preflight_post_from_a :: Request where
  "preflight_post_from_a =
     request ''OPTIONS''
       [(''Origin'', ''http://a.com''), (''Access-Control-Request-Method'', ''POST'')]"

definition handler_a_get_post :: CorsHandler where
  "handler_a_get_post =
     NewHandler
       \<lparr>AllowedOrigins = Mapping.of_alist [(''http://a.com'', Slice [''GET'', ''POST''])]\<rparr>"

definition handler_a_get :: CorsHandler where
  "handler_a_get =
     NewHandler \<lparr>AllowedOrigins = Mapping.of_alist [(''http://a.com'', Slice [''GET''])]\<rparr>"

definition handler_any_get :: CorsHandler where
  "handler_any_get =
     NewHandler \<lparr>AllowedOrigins = Mapping.of_alist [(''*'', Slice [''GET''])]\<rparr>"

definition policy_a :: Policy where
  "policy_a = Mapping.of_alist [(''http://a.com'', \<lparr>methods = [''GET''], headers = [''*'']\<rparr>)]"

definition policy_a_token :: Policy where
  "policy_a_token =
     Mapping.of_alist [(''http://a.com'', \<lparr>methods = [''GET''], headers = [''X-Token'']\<rparr>)]"

definition policy_any :: Policy where
  "policy_any = Mapping.of_alist [(''*'', \<lparr>methods = [''GET''], headers = [''*'']\<rparr>)]"

definition store_a :: Handler where
  "store_a = \<lparr>Handler.cfg = PolicyStore policy_a\<rparr>"

definition store_a_token :: Handler where
  "store_a_token = \<lparr>Handler.cfg = PolicyStore policy_a_token\<rparr>"

definition store_any :: Handler where
  "store_any = \<lparr>Handler.cfg = PolicyStore policy_any\<rparr>"

section \<open>The calls of the primitives\<close>

lemma calls_Header_Set [simp]: "calls (Header_Set k v s) = calls s @ [Call_Set k v]"
  by (simp add: Header_Set_def)

lemma calls_Header_Add [simp]: "calls (Header_Add k v s) = calls s @ [Call_Add k v]"
  by (simp add: Header_Add_def)

lemma calls_WriteHeader [simp]: "calls (WriteHeader c s) = calls s @ [Call_WriteHeader c]"
  by (simp add: WriteHeader_def)

lemma calls_Println [simp]: "calls (Println args s) = calls s @ [Call_Println args]"
  by (simp add: Println_def)

lemma calls_next_ServeHTTP [simp]: "calls (next_ServeHTTP s) = calls s @ [Call_next]"
  by (simp add: next_ServeHTTP_def)

lemma w_Header_Header_Set [simp]:
  "w_Header (Header_Set k v s) = Mapping.update k [v] (w_Header s)"
  by (simp add: Header_Set_def)

lemma w_Header_WriteHeader [simp]: "w_Header (WriteHeader c s) = w_Header s"
  by (simp add: WriteHeader_def)

lemma w_Header_Println [simp]: "w_Header (Println args s) = w_Header s"
  by (simp add: Println_def)

lemma w_Header_next_ServeHTTP [simp]: "w_Header (next_ServeHTTP s) = w_Header s"
  by (simp add: next_ServeHTTP_def)

lemma Header_Get_update [simp]: "Header_Get (Mapping.update k [v] h) k = v"
  by (simp add: Header_Get_def)

lemma issuedI: "calls (f s) = calls s @ t \<Longrightarrow> issued f s = t"
  by (simp add: issued_def)

section \<open>The paths of \<open>CorsHandler.ServeHTTP\<close>\<close>

lemmas CorsHandler_unfold =
  CorsHandler_ServeHTTP_def requestDenied_def StatusForbidden_def StatusOK_def Let_def

lemma CorsHandler_issued_bad_host:
  assumes "\<not> fst (getHostAndMethods (AllowedOrigins (CorsHandler.cfg a)) (Header_Get (Header r) Origin))"
  shows "issued (CorsHandler_ServeHTTP a r) s =
     [Call_Set AccessControlAllowOrigin ''null'',
      Call_Println [Text ''Request Blocked by CORS: Bad Host''],
      Call_WriteHeader 403]"
proof -
  obtain ms where
    "getHostAndMethods (AllowedOrigins (CorsHandler.cfg a)) (Header_Get (Header r) Origin) = (False, ms)"
    using assms by (cases "getHostAndMethods (AllowedOrigins (CorsHandler.cfg a)) (Header_Get (Header r) Origin)") auto
  then show ?thesis
    by (intro issuedI) (simp add: CorsHandler_unfold)
qed

lemma CorsHandler_issued_preflight:
  assumes "getHostAndMethods (AllowedOrigins (CorsHandler.cfg a)) (Header_Get (Header r) Origin) = (True, ms)"
    and "Method r = ''OPTIONS''"
  shows "issued (CorsHandler_ServeHTTP a r) s =
     [Call_Set AccessControlAllowOrigin (Header_Get (Header r) Origin),
      Call_Set AccessControlAllowOrigin (Header_Get (Header r) Origin),
      Call_Set AccessControlAllowMethods (Join (elems ms) '','')] @
     (if Header_Get (Header r) AccessControlRequestMethod \<noteq> [] \<and>
         \<not> checkMethod (Header_Get (Header r) AccessControlRequestMethod) ms
      then [Call_Println [Text ''Request Blocked by CORS: Bad Method''], Call_WriteHeader 403]
      else [Call_WriteHeader 200])"
  using assms by (intro issuedI) (simp add: CorsHandler_unfold)

lemma CorsHandler_issued_actual:
  assumes "getHostAndMethods (AllowedOrigins (CorsHandler.cfg a)) (Header_Get (Header r) Origin) = (True, ms)"
    and "Method r \<noteq> ''OPTIONS''"
  shows "issued (CorsHandler_ServeHTTP a r) s =
     Call_Set AccessControlAllowOrigin (Header_Get (Header r) Origin) #
     (if \<not> checkMethod (Method r) ms
      then [Call_Println [Text ''Request Blocked by CORS: Bad Method''], Call_WriteHeader 403]
      else [Call_next])"
  using assms by (intro issuedI) (simp add: CorsHandler_unfold)

section \<open>The paths of \<open>Handler.ServeHTTP\<close>\<close>

lemmas Handler_unfold =
  Handler_ServeHTTP_def handlePreflight_def handleRequest_def handleCommon_def
  Handler_requestDenied_def prepResponse_def buildResponse_def StatusForbidden_def Let_def

lemma handleCommon_issued:
  "issued (handleCommon h r m) s =
    (let origin = Header_Get (Header r) originHeader;
         hs = Split (Header_Get (Header r) requestHeadersHeader) CHR '','' in
     if \<not> isOriginAllowed (Handler.cfg h) origin
     then [Call_Println [errorRoot, Text '': '', errorBadOrigin], Call_WriteHeader 403]
     else if \<not> isMethodAllowed (Handler.cfg h) m origin
     then [Call_Println [errorRoot, Text '': '', errorBadMethod], Call_WriteHeader 403]
     else if \<not> areHeadersAllowed (Handler.cfg h) hs origin
     then [Call_Println [errorRoot, Text '': '', errorBadHeader], Call_WriteHeader 403]
     else [Call_Set allowOriginHeader origin, Call_Set allowMethodsHeader m,
           Call_Set allowHeadersHeader (Join hs '','')])"
  by (intro issuedI) (simp add: Handler_unfold)

lemma calls_handleCommon: "calls (handleCommon h r m s) = calls s @ issued (handleCommon h r m) s"
  by (simp add: issued_def Handler_unfold)

lemma Handler_issued:
  "issued (Handler_ServeHTTP h r) s =
     Call_Add varyHeader originHeader #
     issued
       (handleCommon h r
         (if Method r = optionsMethod \<and> Header_Get (Header r) requestMethodHeader \<noteq> []
          then Header_Get (Header r) requestMethodHeader else Method r))
       (prepResponse s) @ [Call_next]"
  by (intro issuedI)
    (simp add: Handler_ServeHTTP_def handlePreflight_def handleRequest_def Let_def
      calls_handleCommon prepResponse_def)

section \<open>The policy queries of cors.go\<close>

lemma index_eq_nil_iff: "index m k \<noteq> nil \<longleftrightarrow> (\<exists>xs. Mapping.lookup m k = Some (Slice xs))"
  by (cases "Mapping.lookup m k"; cases "the (Mapping.lookup m k)"; simp add: index_def)

lemma checkMethod_range_iff: "checkMethod_range m xs \<longleftrightarrow> m \<in> set xs \<or> ''*'' \<in> set xs"
  by (induction xs) auto

section \<open>Response headers after a run\<close>

lemma Header_Get_update_other [simp]:
  "k \<noteq> k' \<Longrightarrow> Header_Get (Mapping.update k' v h) k = Header_Get h k"
  by (simp add: Header_Get_def)

lemma getHostAndMethods_cases:
  obtains (denied) ms where "getHostAndMethods P origin = (False, ms)"
  | (included) ms where "getHostAndMethods P origin = (True, ms)"
  by (cases "getHostAndMethods P origin") auto

lemma CorsHandler_issued_bad_host_pair:
  assumes "getHostAndMethods (AllowedOrigins (CorsHandler.cfg a)) (Header_Get (Header r) Origin) =
    (False, ms)"
  shows "issued (CorsHandler_ServeHTTP a r) s =
     [Call_Set AccessControlAllowOrigin ''null'',
      Call_Println [Text ''Request Blocked by CORS: Bad Host''],
      Call_WriteHeader 403]"
  using assms by (intro CorsHandler_issued_bad_host) simp

lemma CorsHandler_allow_origin_denied_host:
  assumes "getHostAndMethods (AllowedOrigins (CorsHandler.cfg a)) (Header_Get (Header r) Origin) =
    (False, ms)"
  shows "Header_Get (w_Header (CorsHandler_ServeHTTP a r s)) AccessControlAllowOrigin = ''null''"
  using assms by (simp add: CorsHandler_unfold)

lemma CorsHandler_allow_origin_included:
  assumes "getHostAndMethods (AllowedOrigins (CorsHandler.cfg a)) (Header_Get (Header r) Origin) =
    (True, ms)"
  shows "Header_Get (w_Header (CorsHandler_ServeHTTP a r s)) AccessControlAllowOrigin =
    Header_Get (Header r) Origin"
  using assms
  by (simp add: CorsHandler_unfold AccessControlAllowOrigin_def AccessControlAllowMethods_def)

lemma CorsHandler_w_Header_Vary:
  "Mapping.lookup (w_Header (CorsHandler_ServeHTTP a r s)) ''Vary'' =
    Mapping.lookup (w_Header s) ''Vary''"
  by (cases rule: getHostAndMethods_cases
      [of "AllowedOrigins (CorsHandler.cfg a)" "Header_Get (Header r) Origin"])
    (simp_all add: CorsHandler_unfold AccessControlAllowOrigin_def AccessControlAllowMethods_def)

lemma w_Header_handleCommon:
  "w_Header (handleCommon h r m s) =
    (if Call_WriteHeader 403 \<in> set (issued (handleCommon h r m) s) then w_Header s
     else Mapping.update allowHeadersHeader
            [Join (Split (Header_Get (Header r) requestHeadersHeader) CHR '','') '','']
            (Mapping.update allowMethodsHeader [m]
              (Mapping.update allowOriginHeader [Header_Get (Header r) originHeader]
                (w_Header s))))"
  by (simp add: handleCommon_issued Let_def) (simp add: Handler_unfold)

lemma w_Header_Handler_ServeHTTP:
  "w_Header (Handler_ServeHTTP h r s) =
     w_Header (handleCommon h r
         (if Method r = optionsMethod \<and> Header_Get (Header r) requestMethodHeader \<noteq> []
          then Header_Get (Header r) requestMethodHeader else Method r) (prepResponse s))"
  by (simp add: Handler_ServeHTTP_def handlePreflight_def handleRequest_def Let_def)

lemma Handler_denied_iff:
  "Call_WriteHeader 403 \<in> set (issued (Handler_ServeHTTP h r) s) \<longleftrightarrow>
   Call_WriteHeader 403 \<in> set (issued (handleCommon h r
         (if Method r = optionsMethod \<and> Header_Get (Header r) requestMethodHeader \<noteq> []
          then Header_Get (Header r) requestMethodHeader else Method r)) (prepResponse s))"
  by (simp add: Handler_issued)

section \<open>Evaluation at the examples\<close>

lemmas run_defs =
  issued_def CorsHandler_ServeHTTP_def requestDenied_def StatusForbidden_def StatusOK_def Let_def
  Handler_ServeHTTP_def handlePreflight_def handleRequest_def handleCommon_def
  Handler_requestDenied_def prepResponse_def buildResponse_def
  getHostAndMethods_def index_def Header_Get_def checkMethod_def
  Origin_def AccessControlAllowOrigin_def AccessControlAllowMethods_def
  AccessControlRequestMethod_def
  optionsMethod_def originHeader_def requestMethodHeader_def requestHeadersHeader_def
  varyHeader_def allowOriginHeader_def allowMethodsHeader_def allowHeadersHeader_def
  PolicyStore_def spec_isOriginAllowed_def spec_isMethodAllowed_def
  spec_areHeadersAllowed_def spec_lookup_def Header_Add_def
  NewHandler_def fresh_def request_def lookup_of_alist
  get_from_a_def get_from_b_def get_from_anything_def get_from_star_def
  preflight_from_a_def preflight_get_from_a_def preflight_post_from_a_def
  handler_a_get_post_def handler_a_get_def handler_any_get_def
  policy_a_def policy_a_token_def policy_any_def
  store_a_def store_a_token_def store_any_def

section \<open>C1: preflight requests are answered directly\<close>

text \<open>
  C1, as stated, fails for \<open>Handler.ServeHTTP\<close>: an OPTIONS request from an allowed
  origin, probing an allowed method, is handed to the next handler, and no status 200 is
  written.
\<close>

theorem Handler_forwards_preflight_counterexample:
  "Method preflight_get_from_a = optionsMethod \<and>
   Call_WriteHeader 403 \<notin> set (issued (Handler_ServeHTTP store_a preflight_get_from_a) fresh) \<and>
   Call_next \<in> set (issued (Handler_ServeHTTP store_a preflight_get_from_a) fresh) \<and>
   Call_WriteHeader 200 \<notin> set (issued (Handler_ServeHTTP store_a preflight_get_from_a) fresh)"
  by (simp add: run_defs)

text \<open>
  C1, amended: in \<open>CorsHandler.ServeHTTP\<close>, an OPTIONS request is never handed to the
  next handler, whether it is allowed or denied; when its origin is accepted and the
  probed method, if one is named, is allowed, the last call is \<open>WriteHeader(200)\<close> and
  no 403 is written.
\<close>

theorem CorsHandler_preflight_answered_directly:
  "Method r = ''OPTIONS'' \<longrightarrow>
     Call_next \<notin> set (issued (CorsHandler_ServeHTTP a r) s) \<and>
     (getHostAndMethods (AllowedOrigins (CorsHandler.cfg a)) (Header_Get (Header r) Origin) =
        (True, ms) \<and>
      (Header_Get (Header r) AccessControlRequestMethod = [] \<or>
       checkMethod (Header_Get (Header r) AccessControlRequestMethod) ms) \<longrightarrow>
        last (issued (CorsHandler_ServeHTTP a r) s) = Call_WriteHeader 200 \<and>
        Call_WriteHeader 403 \<notin> set (issued (CorsHandler_ServeHTTP a r) s))"
proof (cases rule: getHostAndMethods_cases
    [of "AllowedOrigins (CorsHandler.cfg a)" "Header_Get (Header r) Origin"])
  case (denied ms')
  then show ?thesis
    by (simp add: CorsHandler_issued_bad_host_pair)
next
  case (included ms')
  then show ?thesis
    by (auto simp: CorsHandler_issued_preflight)
qed

theorem CorsHandler_preflight_answered_directly_witness:
  "Method preflight_post_from_a = ''OPTIONS'' \<and>
   getHostAndMethods (AllowedOrigins (CorsHandler.cfg handler_a_get_post))
     (Header_Get (Header preflight_post_from_a) Origin) = (True, Slice [''GET'', ''POST'']) \<and>
   checkMethod (Header_Get (Header preflight_post_from_a) AccessControlRequestMethod)
     (Slice [''GET'', ''POST'']) \<and>
   Call_next \<notin> set (issued (CorsHandler_ServeHTTP handler_a_get_post preflight_post_from_a) fresh) \<and>
   last (issued (CorsHandler_ServeHTTP handler_a_get_post preflight_post_from_a) fresh) =
     Call_WriteHeader 200 \<and>
   Call_WriteHeader 403 \<notin>
     set (issued (CorsHandler_ServeHTTP handler_a_get_post preflight_post_from_a) fresh)"
  using CorsHandler_preflight_answered_directly
    [where a = handler_a_get_post and s = fresh and ms = "Slice [''GET'', ''POST'']"
       and r = preflight_post_from_a]
  by (simp add: run_defs)

section \<open>C2: a denied request is not forwarded\<close>

text \<open>
  In \<open>CorsHandler.ServeHTTP\<close> a failed check is terminal: status 403 is written and the
  next handler is not called.
\<close>

lemma CorsHandler_failed_check_is_terminal:
  assumes "\<not> fst (getHostAndMethods (AllowedOrigins (CorsHandler.cfg a)) (Header_Get (Header r) Origin))
    \<or> Method r \<noteq> ''OPTIONS'' \<and>
      \<not> checkMethod (Method r)
        (snd (getHostAndMethods (AllowedOrigins (CorsHandler.cfg a)) (Header_Get (Header r) Origin)))
    \<or> Method r = ''OPTIONS'' \<and> Header_Get (Header r) AccessControlRequestMethod \<noteq> [] \<and>
      \<not> checkMethod (Header_Get (Header r) AccessControlRequestMethod)
        (snd (getHostAndMethods (AllowedOrigins (CorsHandler.cfg a)) (Header_Get (Header r) Origin)))"
  shows "Call_WriteHeader 403 \<in> set (issued (CorsHandler_ServeHTTP a r) s) \<and>
    Call_next \<notin> set (issued (CorsHandler_ServeHTTP a r) s)"
proof (cases rule: getHostAndMethods_cases
    [of "AllowedOrigins (CorsHandler.cfg a)" "Header_Get (Header r) Origin"])
  case (denied ms)
  then show ?thesis
    by (simp add: CorsHandler_issued_bad_host_pair)
next
  case (included ms)
  with assms show ?thesis
    by (cases "Method r = ''OPTIONS''")
      (auto simp: CorsHandler_issued_preflight CorsHandler_issued_actual)
qed

text \<open>
  C2 fails for \<open>Handler.ServeHTTP\<close>, which calls the next handler after every request:
  a request from an origin that is not allowed gets status 403 and is forwarded all the
  same. The calls for the policy \<open>{http://a.com: GET}\<close> and a GET from http://b.com:
\<close>

theorem Handler_forwards_denied_request:
  "issued (Handler_ServeHTTP store_a get_from_b) fresh =
     [Call_Add ''Vary'' ''Origin'',
      Call_Println [errorRoot, Text '': '', errorBadOrigin],
      Call_WriteHeader 403,
      Call_next]"
  by (simp add: run_defs)

section \<open>C3: the response to a denied origin\<close>

text \<open>
  C3, as stated, fails for \<open>Handler\<close>: its \<open>requestDenied\<close> logs and writes 403, and
  nothing sets \<open>Access-Control-Allow-Origin\<close>.
\<close>

theorem Handler_origin_denial_counterexample:
  "\<not> isOriginAllowed (Handler.cfg store_a) (Header_Get (Header get_from_b) originHeader) \<and>
   Call_WriteHeader 403 \<in> set (issued (Handler_ServeHTTP store_a get_from_b) fresh) \<and>
   Call_Set allowOriginHeader ''null'' \<notin> set (issued (Handler_ServeHTTP store_a get_from_b) fresh) \<and>
   Mapping.lookup (w_Header (Handler_ServeHTTP store_a get_from_b fresh)) allowOriginHeader = None"
  by (simp add: run_defs)

text \<open>
  C3, amended: in \<open>CorsHandler.ServeHTTP\<close>, a request whose origin fails the origin check
  gets \<open>Access-Control-Allow-Origin: null\<close> set first, then the log line and status 403,
  and nothing else. In \<open>Handler.ServeHTTP\<close>, such a request gets status 403 and no
  header is set: \<open>Access-Control-Allow-Origin\<close> stays as it was.
\<close>

theorem origin_denial_allow_origin:
  "(\<not> fst (getHostAndMethods (AllowedOrigins (CorsHandler.cfg a)) (Header_Get (Header r) Origin)) \<longrightarrow>
      issued (CorsHandler_ServeHTTP a r) s =
        [Call_Set AccessControlAllowOrigin ''null'',
         Call_Println [Text ''Request Blocked by CORS: Bad Host''],
         Call_WriteHeader 403] \<and>
      Header_Get (w_Header (CorsHandler_ServeHTTP a r s)) AccessControlAllowOrigin = ''null'') \<and>
   (\<not> isOriginAllowed (Handler.cfg h) (Header_Get (Header r') originHeader) \<longrightarrow>
      Call_WriteHeader 403 \<in> set (issued (Handler_ServeHTTP h r') s') \<and>
      (\<forall>k v. Call_Set k v \<notin> set (issued (Handler_ServeHTTP h r') s')) \<and>
      Mapping.lookup (w_Header (Handler_ServeHTTP h r' s')) allowOriginHeader =
        Mapping.lookup (w_Header s') allowOriginHeader)"
proof -
  have cors: ?thesis
    if "\<not> isOriginAllowed (Handler.cfg h) (Header_Get (Header r') originHeader) \<longrightarrow>
      Call_WriteHeader 403 \<in> set (issued (Handler_ServeHTTP h r') s') \<and>
      (\<forall>k v. Call_Set k v \<notin> set (issued (Handler_ServeHTTP h r') s')) \<and>
      Mapping.lookup (w_Header (Handler_ServeHTTP h r' s')) allowOriginHeader =
        Mapping.lookup (w_Header s') allowOriginHeader"
    using that
    by (cases rule: getHostAndMethods_cases
        [of "AllowedOrigins (CorsHandler.cfg a)" "Header_Get (Header r) Origin"])
      (simp_all add: CorsHandler_issued_bad_host_pair CorsHandler_allow_origin_denied_host)
  show ?thesis
    by (rule cors)
      (simp add: Handler_issued handleCommon_issued w_Header_Handler_ServeHTTP
        w_Header_handleCommon prepResponse_def Header_Add_def allowOriginHeader_def
        varyHeader_def)
qed

theorem origin_denial_allow_origin_witness:
  "\<not> fst (getHostAndMethods (AllowedOrigins (CorsHandler.cfg handler_a_get_post))
       (Header_Get (Header get_from_b) Origin)) \<and>
   issued (CorsHandler_ServeHTTP handler_a_get_post get_from_b) fresh =
     [Call_Set AccessControlAllowOrigin ''null'',
      Call_Println [Text ''Request Blocked by CORS: Bad Host''],
      Call_WriteHeader 403] \<and>
   Header_Get (w_Header (CorsHandler_ServeHTTP handler_a_get_post get_from_b fresh))
     AccessControlAllowOrigin = ''null'' \<and>
   \<not> isOriginAllowed (Handler.cfg store_a) (Header_Get (Header get_from_b) originHeader) \<and>
   Call_WriteHeader 403 \<in> set (issued (Handler_ServeHTTP store_a get_from_b) fresh) \<and>
   (\<forall>k v. Call_Set k v \<notin> set (issued (Handler_ServeHTTP store_a get_from_b) fresh)) \<and>
   Mapping.lookup (w_Header (Handler_ServeHTTP store_a get_from_b fresh)) allowOriginHeader =
     Mapping.lookup (w_Header fresh) allowOriginHeader"
proof -
  have cors: "\<not> fst (getHostAndMethods (AllowedOrigins (CorsHandler.cfg handler_a_get_post))
       (Header_Get (Header get_from_b) Origin))"
    by (simp add: run_defs)
  have ext: "\<not> isOriginAllowed (Handler.cfg store_a) (Header_Get (Header get_from_b) originHeader)"
    by (simp add: run_defs)
  show ?thesis
    using cors ext
      origin_denial_allow_origin
        [where a = handler_a_get_post and r = get_from_b and s = fresh
           and h = store_a and r' = get_from_b and s' = fresh]
    by blast
qed

section \<open>C4: the origin check\<close>

text \<open>
  C4, as stated, fails: a key whose method list is nil is a key of the policy, and the
  origin check rejects it.
\<close>

theorem getHostAndMethods_key_with_nil_counterexample:
  "''http://a.com'' \<in> Mapping.keys (Mapping.update ''http://a.com'' nil Mapping.empty) \<and>
   \<not> fst (getHostAndMethods (Mapping.update ''http://a.com'' nil Mapping.empty) ''http://a.com'')"
  by (simp add: getHostAndMethods_def index_def)

text \<open>
  C4, amended: the origin check accepts an origin exactly when the policy holds a
  non-nil method list under that origin or under the wildcard key; a key with a nil list
  counts as absent. For a policy without nil entries this is: the origin is a key or the
  wildcard is a key. Keys are compared by equality of strings.
\<close>

theorem getHostAndMethods_accepts_iff:
  "(fst (getHostAndMethods P origin) \<longleftrightarrow>
      (\<exists>ms. Mapping.lookup P origin = Some (Slice ms)) \<or>
      (\<exists>ms. Mapping.lookup P ''*'' = Some (Slice ms))) \<and>
   ((\<forall>k. Mapping.lookup P k \<noteq> Some nil) \<longrightarrow>
      (fst (getHostAndMethods P origin) \<longleftrightarrow> origin \<in> Mapping.keys P \<or> ''*'' \<in> Mapping.keys P))"
proof -
  have accepts: "fst (getHostAndMethods P origin) \<longleftrightarrow>
      (\<exists>ms. Mapping.lookup P origin = Some (Slice ms)) \<or>
      (\<exists>ms. Mapping.lookup P ''*'' = Some (Slice ms))"
    by (simp add: getHostAndMethods_def index_eq_nil_iff)
  have key: "k \<in> Mapping.keys P \<longleftrightarrow> (\<exists>ms. Mapping.lookup P k = Some (Slice ms))"
    if "\<forall>k. Mapping.lookup P k \<noteq> Some nil" for k
  proof (cases "Mapping.lookup P k")
    case None
    then show ?thesis by (simp add: keys_is_none_rep)
  next
    case (Some v)
    with that show ?thesis by (cases v) (auto simp: keys_is_none_rep)
  qed
  show ?thesis using accepts key by simp
qed

theorem getHostAndMethods_accepts_iff_witness:
  "(\<forall>k. Mapping.lookup (Mapping.update ''http://a.com'' (Slice [''GET'']) Mapping.empty) k \<noteq>
      Some nil) \<and>
   fst (getHostAndMethods (Mapping.update ''http://a.com'' (Slice [''GET'']) Mapping.empty)
     ''http://a.com'') \<and>
   \<not> fst (getHostAndMethods (Mapping.update ''http://a.com'' (Slice [''GET'']) Mapping.empty)
     ''http://a.com.evil.org'') \<and>
   \<not> fst (getHostAndMethods (Mapping.update ''http://a.com'' (Slice [''GET'']) Mapping.empty)
     ''HTTP://A.COM'') \<and>
   \<not> fst (getHostAndMethods (Mapping.update ''http://a.com'' (Slice [''GET'']) Mapping.empty)
     ''http://a'')"
  using getHostAndMethods_accepts_iff
      [of "Mapping.update ''http://a.com'' (Slice [''GET'']) Mapping.empty" "''http://a.com''"]
    getHostAndMethods_accepts_iff
      [of "Mapping.update ''http://a.com'' (Slice [''GET'']) Mapping.empty"
          "''http://a.com.evil.org''"]
    getHostAndMethods_accepts_iff
      [of "Mapping.update ''http://a.com'' (Slice [''GET'']) Mapping.empty" "''HTTP://A.COM''"]
    getHostAndMethods_accepts_iff
      [of "Mapping.update ''http://a.com'' (Slice [''GET'']) Mapping.empty" "''http://a''"]
  by (simp add: Mapping.lookup_update')

section \<open>C5: the method check\<close>

text \<open>
  C5: the method check accepts a method exactly when the method list contains it
  literally or contains the wildcard token; so a list that contains the wildcard token,
  found by the lookup that tries the exact origin first and the wildcard origin second,
  accepts every probed method.
\<close>

theorem checkMethod_literal_or_wildcard:
  "(checkMethod m ms \<longleftrightarrow> m \<in> set (elems ms) \<or> ''*'' \<in> set (elems ms)) \<and>
   (''*'' \<in> set (elems (snd (getHostAndMethods P origin))) \<longrightarrow>
      checkMethod m (snd (getHostAndMethods P origin)))"
  by (simp add: checkMethod_def checkMethod_range_iff)

theorem checkMethod_literal_or_wildcard_witness:
  "''*'' \<in> set (elems (snd (getHostAndMethods
       (Mapping.update ''http://a.com'' (Slice [''*'']) Mapping.empty) ''http://a.com''))) \<and>
   checkMethod ''DELETE'' (snd (getHostAndMethods
       (Mapping.update ''http://a.com'' (Slice [''*'']) Mapping.empty) ''http://a.com'')) \<and>
   \<not> checkMethod ''DELETE'' (Slice [''GET'', ''POST''])"
  using checkMethod_literal_or_wildcard
    [of "''DELETE''" "Slice [''GET'', ''POST'']"
        "Mapping.update ''http://a.com'' (Slice [''*'']) Mapping.empty" "''http://a.com''"]
  by (simp add: getHostAndMethods_def index_def)

section \<open>C6: the echoed origin\<close>

text \<open>
  C6, as stated, fails: a request whose \<open>Origin\<close> header is the string \<open>*\<close> is allowed
  by a wildcard policy, and \<open>Access-Control-Allow-Origin\<close> is then \<open>*\<close>.
\<close>

theorem allow_origin_star_counterexample:
  "Call_WriteHeader 403 \<notin> set (issued (CorsHandler_ServeHTTP handler_any_get get_from_star) fresh) \<and>
   Call_next \<in> set (issued (CorsHandler_ServeHTTP handler_any_get get_from_star) fresh) \<and>
   Header_Get (w_Header (CorsHandler_ServeHTTP handler_any_get get_from_star fresh))
     AccessControlAllowOrigin = ''*''"
  by (simp add: run_defs)

text \<open>
  C6, amended: for every allowed request (no status 403 written), in both handlers,
  \<open>Access-Control-Allow-Origin\<close> ends up as the value of the request's own \<open>Origin\<close>
  header, whichever policy entry matched; it is \<open>*\<close> only when the request's \<open>Origin\<close>
  header is itself \<open>*\<close>.
\<close>

theorem allowed_request_echoes_origin:
  "(Call_WriteHeader 403 \<notin> set (issued (CorsHandler_ServeHTTP a r) s) \<longrightarrow>
      Header_Get (w_Header (CorsHandler_ServeHTTP a r s)) AccessControlAllowOrigin =
        Header_Get (Header r) Origin \<and>
      (Header_Get (w_Header (CorsHandler_ServeHTTP a r s)) AccessControlAllowOrigin = ''*'' \<longleftrightarrow>
        Header_Get (Header r) Origin = ''*'')) \<and>
   (Call_WriteHeader 403 \<notin> set (issued (Handler_ServeHTTP h r') s') \<longrightarrow>
      Header_Get (w_Header (Handler_ServeHTTP h r' s')) allowOriginHeader =
        Header_Get (Header r') originHeader \<and>
      (Header_Get (w_Header (Handler_ServeHTTP h r' s')) allowOriginHeader = ''*'' \<longleftrightarrow>
        Header_Get (Header r') originHeader = ''*''))"
proof
  show "Call_WriteHeader 403 \<notin> set (issued (CorsHandler_ServeHTTP a r) s) \<longrightarrow>
      Header_Get (w_Header (CorsHandler_ServeHTTP a r s)) AccessControlAllowOrigin =
        Header_Get (Header r) Origin \<and>
      (Header_Get (w_Header (CorsHandler_ServeHTTP a r s)) AccessControlAllowOrigin = ''*'' \<longleftrightarrow>
        Header_Get (Header r) Origin = ''*'')"
    by (cases rule: getHostAndMethods_cases
        [of "AllowedOrigins (CorsHandler.cfg a)" "Header_Get (Header r) Origin"])
      (simp_all add: CorsHandler_issued_bad_host_pair CorsHandler_allow_origin_included)
  show "Call_WriteHeader 403 \<notin> set (issued (Handler_ServeHTTP h r') s') \<longrightarrow>
      Header_Get (w_Header (Handler_ServeHTTP h r' s')) allowOriginHeader =
        Header_Get (Header r') originHeader \<and>
      (Header_Get (w_Header (Handler_ServeHTTP h r' s')) allowOriginHeader = ''*'' \<longleftrightarrow>
        Header_Get (Header r') originHeader = ''*'')"
    by (simp add: Handler_denied_iff w_Header_Handler_ServeHTTP w_Header_handleCommon
        allowOriginHeader_def allowMethodsHeader_def allowHeadersHeader_def)
qed

theorem allowed_request_echoes_origin_witness:
  "Call_WriteHeader 403 \<notin>
     set (issued (CorsHandler_ServeHTTP handler_any_get get_from_anything) fresh) \<and>
   Header_Get (w_Header (CorsHandler_ServeHTTP handler_any_get get_from_anything fresh))
     AccessControlAllowOrigin = ''http://anything.com'' \<and>
   Call_WriteHeader 403 \<notin> set (issued (Handler_ServeHTTP store_any get_from_anything) fresh) \<and>
   Header_Get (w_Header (Handler_ServeHTTP store_any get_from_anything fresh))
     allowOriginHeader = ''http://anything.com''"
proof -
  have cors: "Call_WriteHeader 403 \<notin>
     set (issued (CorsHandler_ServeHTTP handler_any_get get_from_anything) fresh)"
    by (simp add: run_defs)
  have ext: "Call_WriteHeader 403 \<notin>
     set (issued (Handler_ServeHTTP store_any get_from_anything) fresh)"
    by (simp add: run_defs)
  have origin: "Header_Get (Header get_from_anything) Origin = ''http://anything.com''"
    "Header_Get (Header get_from_anything) originHeader = ''http://anything.com''"
    by (simp_all add: run_defs)
  show ?thesis
    using cors ext origin
      allowed_request_echoes_origin
        [where a = handler_any_get and r = get_from_anything and s = fresh
           and h = store_any and r' = get_from_anything and s' = fresh]
    by simp
qed

section \<open>C7: the method a preflight request is checked with\<close>

text \<open>
  C7, as stated, fails for \<open>CorsHandler.ServeHTTP\<close>: without an
  \<open>Access-Control-Request-Method\<close> header no method is checked. The request's own
  method \<open>OPTIONS\<close> is not in the policy of the origin, and the preflight is answered
  with status 200.
\<close>

theorem CorsHandler_bare_preflight_counterexample:
  "Method preflight_from_a = ''OPTIONS'' \<and>
   Header_Get (Header preflight_from_a) AccessControlRequestMethod = [] \<and>
   \<not> checkMethod (Method preflight_from_a)
       (snd (getHostAndMethods (AllowedOrigins (CorsHandler.cfg handler_a_get))
         (Header_Get (Header preflight_from_a) Origin))) \<and>
   Call_WriteHeader 403 \<notin> set (issued (CorsHandler_ServeHTTP handler_a_get preflight_from_a) fresh) \<and>
   Call_WriteHeader 200 \<in> set (issued (CorsHandler_ServeHTTP handler_a_get preflight_from_a) fresh)"
  by (simp add: run_defs)

text \<open>
  C7, amended: in \<open>Handler\<close>, the method a preflight request is checked with is the
  value of \<open>Access-Control-Request-Method\<close> when that is not empty, and the request's
  own method otherwise; with the origin and the requested headers allowed, the request
  is denied exactly when that method is not allowed. In \<open>CorsHandler\<close>, for an accepted
  origin, a non-empty \<open>Access-Control-Request-Method\<close> is checked against the methods of
  the origin, and without it no method is checked: the request is answered with status
  200. Both handlers are total, so neither fails when the header is absent.
\<close>

theorem preflight_probed_method:
  "(handlePreflight h r s =
      handleCommon h r
        (if Header_Get (Header r) requestMethodHeader \<noteq> []
         then Header_Get (Header r) requestMethodHeader else Method r) s) \<and>
   (isOriginAllowed (Handler.cfg h) (Header_Get (Header r) originHeader) \<and>
    areHeadersAllowed (Handler.cfg h)
      (Split (Header_Get (Header r) requestHeadersHeader) CHR '','')
      (Header_Get (Header r) originHeader) \<longrightarrow>
      (Call_WriteHeader 403 \<in> set (issued (handlePreflight h r) s) \<longleftrightarrow>
       \<not> isMethodAllowed (Handler.cfg h)
         (if Header_Get (Header r) requestMethodHeader \<noteq> []
          then Header_Get (Header r) requestMethodHeader else Method r)
         (Header_Get (Header r) originHeader))) \<and>
   (Method r' = ''OPTIONS'' \<and>
    getHostAndMethods (AllowedOrigins (CorsHandler.cfg a)) (Header_Get (Header r') Origin) =
      (True, ms) \<longrightarrow>
      (Header_Get (Header r') AccessControlRequestMethod \<noteq> [] \<longrightarrow>
         (Call_WriteHeader 403 \<in> set (issued (CorsHandler_ServeHTTP a r') s') \<longleftrightarrow>
          \<not> checkMethod (Header_Get (Header r') AccessControlRequestMethod) ms)) \<and>
      (Header_Get (Header r') AccessControlRequestMethod = [] \<longrightarrow>
         Call_WriteHeader 403 \<notin> set (issued (CorsHandler_ServeHTTP a r') s') \<and>
         last (issued (CorsHandler_ServeHTTP a r') s') = Call_WriteHeader 200))"
proof -
  have eq: "handlePreflight h r = handleCommon h r
        (if Header_Get (Header r) requestMethodHeader \<noteq> []
         then Header_Get (Header r) requestMethodHeader else Method r)"
    by (rule ext) (simp add: handlePreflight_def Let_def)
  show ?thesis
    unfolding eq by (auto simp: handleCommon_issued Let_def CorsHandler_issued_preflight)
qed

theorem preflight_probed_method_witness:
  "isOriginAllowed (Handler.cfg store_a) (Header_Get (Header preflight_from_a) originHeader) \<and>
   areHeadersAllowed (Handler.cfg store_a)
     (Split (Header_Get (Header preflight_from_a) requestHeadersHeader) CHR '','')
     (Header_Get (Header preflight_from_a) originHeader) \<and>
   Header_Get (Header preflight_from_a) requestMethodHeader = [] \<and>
   \<not> isMethodAllowed (Handler.cfg store_a) (Method preflight_from_a)
       (Header_Get (Header preflight_from_a) originHeader) \<and>
   Call_WriteHeader 403 \<in> set (issued (handlePreflight store_a preflight_from_a) fresh) \<and>
   Method preflight_post_from_a = ''OPTIONS'' \<and>
   getHostAndMethods (AllowedOrigins (CorsHandler.cfg handler_a_get))
     (Header_Get (Header preflight_post_from_a) Origin) = (True, Slice [''GET'']) \<and>
   Header_Get (Header preflight_post_from_a) AccessControlRequestMethod = ''POST'' \<and>
   \<not> checkMethod ''POST'' (Slice [''GET'']) \<and>
   Call_WriteHeader 403 \<in>
     set (issued (CorsHandler_ServeHTTP handler_a_get preflight_post_from_a) fresh) \<and>
   Method preflight_from_a = ''OPTIONS'' \<and>
   getHostAndMethods (AllowedOrigins (CorsHandler.cfg handler_a_get))
     (Header_Get (Header preflight_from_a) Origin) = (True, Slice [''GET'']) \<and>
   Header_Get (Header preflight_from_a) AccessControlRequestMethod = [] \<and>
   Call_WriteHeader 403 \<notin> set (issued (CorsHandler_ServeHTTP handler_a_get preflight_from_a) fresh) \<and>
   last (issued (CorsHandler_ServeHTTP handler_a_get preflight_from_a) fresh) =
     Call_WriteHeader 200"
proof -
  have facts:
    "isOriginAllowed (Handler.cfg store_a) (Header_Get (Header preflight_from_a) originHeader)"
    "areHeadersAllowed (Handler.cfg store_a)
       (Split (Header_Get (Header preflight_from_a) requestHeadersHeader) CHR '','')
       (Header_Get (Header preflight_from_a) originHeader)"
    "Header_Get (Header preflight_from_a) requestMethodHeader = []"
    "\<not> isMethodAllowed (Handler.cfg store_a) (Method preflight_from_a)
       (Header_Get (Header preflight_from_a) originHeader)"
    "Method preflight_post_from_a = ''OPTIONS''"
    "getHostAndMethods (AllowedOrigins (CorsHandler.cfg handler_a_get))
       (Header_Get (Header preflight_post_from_a) Origin) = (True, Slice [''GET''])"
    "Header_Get (Header preflight_post_from_a) AccessControlRequestMethod = ''POST''"
    "\<not> checkMethod ''POST'' (Slice [''GET''])"
    "Method preflight_from_a = ''OPTIONS''"
    "getHostAndMethods (AllowedOrigins (CorsHandler.cfg handler_a_get))
       (Header_Get (Header preflight_from_a) Origin) = (True, Slice [''GET''])"
    "Header_Get (Header preflight_from_a) AccessControlRequestMethod = []"
    by (simp_all add: run_defs)
  show ?thesis
    using facts
      preflight_probed_method
        [where h = store_a and r = preflight_from_a and s = fresh
           and a = handler_a_get and r' = preflight_post_from_a and s' = fresh
           and ms = "Slice [''GET'']"]
      preflight_probed_method
        [where h = store_a and r = preflight_from_a and s = fresh
           and a = handler_a_get and r' = preflight_from_a and s' = fresh
           and ms = "Slice [''GET'']"]
    by simp
qed

section \<open>C8: construction\<close>

text \<open>
  C8: construction fails with an error exactly when the mapping is empty or has the
  empty string among its keys; every other mapping, whatever its method tokens, is
  accepted and the middleware holds exactly that mapping.
\<close>

theorem New_fails_iff_empty_or_empty_key:
  "((\<exists>e. New P = Inl e) \<longleftrightarrow> Mapping.is_empty P \<or> [] \<in> Mapping.keys P) \<and>
   (\<not> Mapping.is_empty P \<and> [] \<notin> Mapping.keys P \<longrightarrow> New P = Inr \<lparr>AllowedOrigins = P\<rparr>)"
  by (simp add: New_def validateOrigins_def)

theorem New_fails_iff_empty_or_empty_key_witness:
  "\<not> Mapping.is_empty
       (Mapping.update ''http://a.com'' (Slice [''G E T'', [], ''*,'']) Mapping.empty) \<and>
   [] \<notin> Mapping.keys
       (Mapping.update ''http://a.com'' (Slice [''G E T'', [], ''*,'']) Mapping.empty) \<and>
   New (Mapping.update ''http://a.com'' (Slice [''G E T'', [], ''*,'']) Mapping.empty) =
     Inr \<lparr>AllowedOrigins =
       Mapping.update ''http://a.com'' (Slice [''G E T'', [], ''*,'']) Mapping.empty\<rparr> \<and>
   (\<exists>e. New (Mapping.empty :: (string, string slice) mapping) = Inl e) \<and>
   (\<exists>e. New (Mapping.update [] (Slice [''GET''])
       (Mapping.update ''http://a.com'' (Slice [''GET'']) Mapping.empty)) = Inl e)"
  using New_fails_iff_empty_or_empty_key
      [of "Mapping.update ''http://a.com'' (Slice [''G E T'', [], ''*,'']) Mapping.empty"]
    New_fails_iff_empty_or_empty_key [of "Mapping.empty"]
    New_fails_iff_empty_or_empty_key
      [of "Mapping.update [] (Slice [''GET''])
         (Mapping.update ''http://a.com'' (Slice [''GET'']) Mapping.empty)"]
  by simp

section \<open>C9: the Vary header\<close>

text \<open>
  C9, as stated, fails for \<open>CorsHandler.ServeHTTP\<close>: an allowed request is forwarded and
  no \<open>Vary\<close> header was added.
\<close>

theorem CorsHandler_no_Vary_counterexample:
  "Call_next \<in> set (issued (CorsHandler_ServeHTTP handler_a_get_post get_from_a) fresh) \<and>
   Call_Add ''Vary'' ''Origin'' \<notin>
     set (issued (CorsHandler_ServeHTTP handler_a_get_post get_from_a) fresh) \<and>
   Mapping.lookup (w_Header (CorsHandler_ServeHTTP handler_a_get_post get_from_a fresh)) ''Vary'' =
     None"
  by (simp add: run_defs)

text \<open>
  C9, amended: in \<open>Handler.ServeHTTP\<close>, for every request and whatever the decision, the
  first call adds \<open>Origin\<close> to the \<open>Vary\<close> header. \<open>CorsHandler.ServeHTTP\<close> never
  adds a header and leaves \<open>Vary\<close> as it was.
\<close>

theorem Vary_Origin_first_in_Handler_only:
  "(\<exists>t. issued (Handler_ServeHTTP h r) s = Call_Add ''Vary'' ''Origin'' # t) \<and>
   (\<forall>k v. Call_Add k v \<notin> set (issued (CorsHandler_ServeHTTP a r') s')) \<and>
   Mapping.lookup (w_Header (CorsHandler_ServeHTTP a r' s')) ''Vary'' =
     Mapping.lookup (w_Header s') ''Vary''"
proof -
  have "\<forall>k v. Call_Add k v \<notin> set (issued (CorsHandler_ServeHTTP a r') s')"
  proof (cases rule: getHostAndMethods_cases
      [of "AllowedOrigins (CorsHandler.cfg a)" "Header_Get (Header r') Origin"])
    case (denied ms)
    then show ?thesis by (simp add: CorsHandler_issued_bad_host_pair)
  next
    case (included ms)
    then show ?thesis
      by (cases "Method r' = ''OPTIONS''")
        (simp_all add: CorsHandler_issued_preflight CorsHandler_issued_actual)
  qed
  then show ?thesis
    by (simp add: Handler_issued CorsHandler_w_Header_Vary varyHeader_def originHeader_def)
qed

section \<open>C10: an absent list of requested headers\<close>

text \<open>
  C10: in \<open>Handler\<close>, when \<open>Access-Control-Request-Headers\<close> is absent or empty, the
  list of requested headers is the one-element list of the empty string. Once origin
  and method are allowed, that list is what the header check receives, and its join is
  what \<open>Access-Control-Allow-Headers\<close> is set to. Against the policy store, the request
  passes the header check exactly when the allowed headers of the origin contain the
  empty string or the wildcard token.
\<close>

theorem absent_request_headers_checked_as_empty_name:
  "Header_Get (Header r) requestHeadersHeader = [] \<longrightarrow>
     Split (Header_Get (Header r) requestHeadersHeader) CHR '','' = [[]] \<and>
     (isOriginAllowed (Handler.cfg h) (Header_Get (Header r) originHeader) \<and>
      isMethodAllowed (Handler.cfg h) m (Header_Get (Header r) originHeader) \<longrightarrow>
        issued (handleCommon h r m) s =
          (if areHeadersAllowed (Handler.cfg h) [[]] (Header_Get (Header r) originHeader)
           then [Call_Set allowOriginHeader (Header_Get (Header r) originHeader),
                 Call_Set allowMethodsHeader m,
                 Call_Set allowHeadersHeader (Join [[]] '','')]
           else [Call_Println [errorRoot, Text '': '', errorBadHeader], Call_WriteHeader 403])) \<and>
     (areHeadersAllowed (PolicyStore P) [[]] origin \<longleftrightarrow>
        [] \<in> set (headers (spec_lookup P origin)) \<or> ''*'' \<in> set (headers (spec_lookup P origin)))"
  by (simp add: handleCommon_issued Let_def PolicyStore_def spec_areHeadersAllowed_def)

theorem absent_request_headers_checked_as_empty_name_witness:
  "Header_Get (Header get_from_a) requestHeadersHeader = [] \<and>
   Split (Header_Get (Header get_from_a) requestHeadersHeader) CHR '','' = [[]] \<and>
   isOriginAllowed (Handler.cfg store_a_token) (Header_Get (Header get_from_a) originHeader) \<and>
   isMethodAllowed (Handler.cfg store_a_token) ''GET''
     (Header_Get (Header get_from_a) originHeader) \<and>
   \<not> areHeadersAllowed (PolicyStore policy_a_token) [[]] ''http://a.com'' \<and>
   issued (handleCommon store_a_token get_from_a ''GET'') fresh =
     [Call_Println [errorRoot, Text '': '', errorBadHeader], Call_WriteHeader 403] \<and>
   isOriginAllowed (Handler.cfg store_a) (Header_Get (Header get_from_a) originHeader) \<and>
   isMethodAllowed (Handler.cfg store_a) ''GET'' (Header_Get (Header get_from_a) originHeader) \<and>
   areHeadersAllowed (PolicyStore policy_a) [[]] ''http://a.com'' \<and>
   issued (handleCommon store_a get_from_a ''GET'') fresh =
     [Call_Set allowOriginHeader ''http://a.com'',
      Call_Set allowMethodsHeader ''GET'',
      Call_Set allowHeadersHeader []]"
proof -
  have facts:
    "Header_Get (Header get_from_a) requestHeadersHeader = []"
    "Header_Get (Header get_from_a) originHeader = ''http://a.com''"
    "isOriginAllowed (Handler.cfg store_a_token) ''http://a.com''"
    "isMethodAllowed (Handler.cfg store_a_token) ''GET'' ''http://a.com''"
    "isOriginAllowed (Handler.cfg store_a) ''http://a.com''"
    "isMethodAllowed (Handler.cfg store_a) ''GET'' ''http://a.com''"
    "Handler.cfg store_a_token = PolicyStore policy_a_token"
    "Handler.cfg store_a = PolicyStore policy_a"
    "headers (spec_lookup policy_a_token ''http://a.com'') = [''X-Token'']"
    "headers (spec_lookup policy_a ''http://a.com'') = [''*'']"
    by (simp_all add: run_defs)
  show ?thesis
    using facts
      absent_request_headers_checked_as_empty_name
        [where r = get_from_a and h = store_a_token and m = "''GET''" and s = fresh
           and P = policy_a_token and origin = "''http://a.com''"]
      absent_request_headers_checked_as_empty_name
        [where r = get_from_a and h = store_a and m = "''GET''" and s = fresh
           and P = policy_a and origin = "''http://a.com''"]
    by simp
qed

end
